theory Spec2Isabelle
  imports Main "HOL-Library.Log_Nat"
begin

section \<open>JavaScript values\<close>

text \<open>
  The services and hooks of the dashboard work on what \<^verbatim>\<open>response.json()\<close> returns,
  typed \<^verbatim>\<open>any\<close>.  A value is a JSON value or \<^verbatim>\<open>undefined\<close>; a JSON number is a finite
  double, held as the rational it denotes.  An object whose properties the code reads
  (a stock record) is a map from property names to values: a property can be absent, or
  present with the value \<^verbatim>\<open>undefined\<close>, and an object spread tells the two apart.
\<close>

datatype jsval =
    JUndefined
  | JNull
  | JBool bool
  | JNum rat
  | JStr string
  | JArr "jsval list"
  | JObj "(string \<times> jsval) list"

type_synonym obj = "string \<rightharpoonup> jsval"

text \<open>Property read \<^verbatim>\<open>o.k\<close>: an absent property reads as \<^verbatim>\<open>undefined\<close>.\<close>

definition get :: "obj \<Rightarrow> string \<Rightarrow> jsval" where
  "get ob k = (case ob k of None \<Rightarrow> JUndefined | Some v \<Rightarrow> v)"

text \<open>
  Strict equality \<^verbatim>\<open>===\<close>.  Arrays and objects are compared by reference, and the two
  sides of every comparison in this code come from different places of the parsed
  document (or from a literal), so they are never the same reference.
\<close>

fun strict_eq :: "jsval \<Rightarrow> jsval \<Rightarrow> bool" where
  "strict_eq JUndefined JUndefined = True"
| "strict_eq JNull JNull = True"
| "strict_eq (JBool a) (JBool b) = (a = b)"
| "strict_eq (JNum a) (JNum b) = (a = b)"
| "strict_eq (JStr a) (JStr b) = (a = b)"
| "strict_eq _ _ = False"

text \<open>Truthiness, as \<^verbatim>\<open>c ? a : b\<close>, \<^verbatim>\<open>!x\<close> and \<^verbatim>\<open>a || b\<close> test it.\<close>

fun truthy :: "jsval \<Rightarrow> bool" where
  "truthy JUndefined = False"
| "truthy JNull = False"
| "truthy (JBool b) = b"
| "truthy (JNum r) = (r \<noteq> 0)"
| "truthy (JStr s) = (s \<noteq> [])"
| "truthy (JArr _) = True"
| "truthy (JObj _) = True"

section \<open>Double-precision arithmetic\<close>

text \<open>
  A JavaScript number is an IEEE 754 double.  Each arithmetic operation returns the
  double nearest to the exact result, ties to the even significand: \<open>fl\<close> rounds a
  rational to 53 significant bits.  The exponent is left unbounded: the quantities
  computed here (a ratio of two array lengths, a percentage, a market capitalisation
  below 3000) neither overflow nor reach the subnormal range.
\<close>

definition pow2 :: "int \<Rightarrow> rat" where
  "pow2 e = (if 0 \<le> e then 2 ^ nat e else 1 / 2 ^ nat (- e))"

definition round_nearest_even :: "rat \<Rightarrow> int" where
  "round_nearest_even y =
     (let f = \<lfloor>y\<rfloor>; r = y - of_int f
      in if r < 1 / 2 then f else if 1 / 2 < r then f + 1 else if even f then f else f + 1)"

text \<open>\<open>binary_exponent x\<close> is the \<open>e\<close> with \<open>2 ^ e \<le> \<bar>x\<bar> < 2 ^ (e + 1)\<close>, for \<open>x \<noteq> 0\<close>.\<close>

definition binary_exponent :: "rat \<Rightarrow> int" where
  "binary_exponent x =
     (let (p, q) = quotient_of \<bar>x\<bar>; e0 = bitlen p - bitlen q
      in if pow2 e0 \<le> \<bar>x\<bar> then e0 else e0 - 1)"

definition fl :: "rat \<Rightarrow> rat" where
  "fl x = (if x = 0 then 0
           else let u = pow2 (binary_exponent x - 52)
                in of_int (round_nearest_even (x / u)) * u)"

definition fadd :: "rat \<Rightarrow> rat \<Rightarrow> rat" where
  "fadd a b = fl (a + b)"

definition fmul :: "rat \<Rightarrow> rat \<Rightarrow> rat" where
  "fmul a b = fl (a * b)"

definition fdiv :: "rat \<Rightarrow> rat \<Rightarrow> rat" where
  "fdiv a b = fl (a / b)"

text \<open>
  \<^verbatim>\<open>Math.round(x)\<close>: the integer nearest to \<open>x\<close>, the larger one of two equally near.
\<close>

definition Math_round :: "rat \<Rightarrow> int" where
  "Math_round x = \<lfloor>x + 1 / 2\<rfloor>"

section \<open>Host functions\<close>

text \<open>
  What the code takes from the JavaScript host and the standard fixes only up to the
  implementation or the locale: the text of a number (\<^verbatim>\<open>Number::toString\<close>), the
  parsing of a date string (\<^verbatim>\<open>NaN\<close>, here \<open>None\<close>, when the string is not a date),
  the time of day in the user's locale, and the successive values of
  \<^verbatim>\<open>Math.random()\<close>.
\<close>

record host =
  Number_toString :: "rat \<Rightarrow> string"
  Date_parse :: "string \<Rightarrow> int option"
  toLocaleTimeString :: "int option \<Rightarrow> string"
  Math_random :: "nat \<Rightarrow> rat"

fun join :: "string list \<Rightarrow> string" where
  "join [] = []"
| "join [x] = x"
| "join (x # y # ys) = x @ '','' @ join (y # ys)"

text \<open>\<^verbatim>\<open>String(v)\<close>.\<close>

fun js_String :: "host \<Rightarrow> jsval \<Rightarrow> string" where
  "js_String h JUndefined = ''undefined''"
| "js_String h JNull = ''null''"
| "js_String h (JBool b) = (if b then ''true'' else ''false'')"
| "js_String h (JNum r) = Number_toString h r"
| "js_String h (JStr s) = s"
| "js_String h (JArr xs) =
     join (map (\<lambda>v. if v = JUndefined \<or> v = JNull then [] else js_String h v) xs)"
| "js_String h (JObj _) = ''[object Object]''"

text \<open>
  A time value is an integer number of milliseconds, at most \<open>8.64e15\<close> in absolute
  value, or \<^verbatim>\<open>NaN\<close>: a number that may be \<^verbatim>\<open>NaN\<close> is an \<open>int option\<close>, \<open>None\<close> for
  \<^verbatim>\<open>NaN\<close>.
\<close>

definition TimeClip :: "rat \<Rightarrow> int option" where
  "TimeClip t =
     (if 8640000000000000 < \<bar>t\<bar> then None
      else Some (if 0 \<le> t then \<lfloor>t\<rfloor> else \<lceil>t\<rceil>))"

text \<open>\<^verbatim>\<open>new Date(v).getTime()\<close>: a string is parsed, anything else is read as a number.\<close>

fun Date_getTime :: "host \<Rightarrow> jsval \<Rightarrow> int option" where
  "Date_getTime h JUndefined = None"
| "Date_getTime h JNull = Some 0"
| "Date_getTime h (JBool b) = Some (if b then 1 else 0)"
| "Date_getTime h (JNum r) = TimeClip r"
| "Date_getTime h (JStr s) = Date_parse h s"
| "Date_getTime h (JArr xs) = Date_parse h (js_String h (JArr xs))"
| "Date_getTime h (JObj kvs) = Date_parse h (js_String h (JObj kvs))"

text \<open>Arithmetic and comparison of numbers that may be \<^verbatim>\<open>NaN\<close>.\<close>

definition num_sub :: "int option \<Rightarrow> int option \<Rightarrow> int option" where
  "num_sub a b = (case (a, b) of (Some x, Some y) \<Rightarrow> Some (x - y) | _ \<Rightarrow> None)"

definition num_le :: "int option \<Rightarrow> int option \<Rightarrow> bool" where
  "num_le a b = (case (a, b) of (Some x, Some y) \<Rightarrow> x \<le> y | _ \<Rightarrow> False)"


text \<open>\<^verbatim>\<open>x.toFixed(2)\<close>, for \<open>\<bar>x\<bar> < 1e21\<close>.\<close>

fun digits :: "nat \<Rightarrow> string" where
  "digits n = (if n < 10 then [''0123456789'' ! n]
               else digits (n div 10) @ [''0123456789'' ! (n mod 10)])"

declare digits.simps [simp del]

definition toFixed2 :: "rat \<Rightarrow> string" where
  "toFixed2 x =
     (let n = nat \<lfloor>\<bar>x\<bar> * 100 + 1 / 2\<rfloor>
      in (if x < 0 then ''-'' else []) @ digits (n div 100) @ ''.''
         @ [''0123456789'' ! (n mod 100 div 10), ''0123456789'' ! (n mod 10)])"

section \<open>The market data service: \<^verbatim>\<open>services/marketData.ts\<close>\<close>

record MarketSnapshot =
  label :: string
  timestamp :: "int option"
  data :: "obj list"

text \<open>
  The parsed document.  \<^verbatim>\<open>stockData\<close> and each group's \<^verbatim>\<open>stocks\<close> are arrays of
  objects, or absent (\<open>None\<close>), in which case calling \<^verbatim>\<open>.map\<close> on them throws a
  \<^verbatim>\<open>TypeError\<close>; \<^verbatim>\<open>historicalSnapshots\<close> is an array of groups or absent.
\<close>

record raw_snapshot =
  snap_timestamp :: jsval
  snap_stocks :: "obj list option"

record raw_data =
  stockData :: "obj list option"
  historicalSnapshots :: "raw_snapshot list option"

text \<open>
  The outcome of \<^verbatim>\<open>fetch(DATA_URL)\<close> followed by \<^verbatim>\<open>response.json()\<close>: the promise is
  rejected (a network error), or there is a response with its \<^verbatim>\<open>ok\<close> flag, its status
  text and its body, \<open>None\<close> when the body is not JSON.
\<close>

datatype fetched = Rejected | Response bool string "raw_data option"

datatype js_error = NetworkError | HttpError string | SyntaxError | TypeError

text \<open>
  \<^verbatim>\<open>generateMarketCap(ticker, sector)\<close>; \<open>k\<close> counts the calls of \<^verbatim>\<open>Math.random()\<close>
  made before this one.
\<close>

definition generateMarketCap :: "host \<Rightarrow> nat \<Rightarrow> jsval \<Rightarrow> jsval \<Rightarrow> string" where
  "generateMarketCap h k ticker sector =
     (if ticker \<in> set (map JStr [''AAPL'', ''MSFT'', ''NVDA'', ''GOOG'', ''GOOGL'', ''AMZN''])
      then toFixed2 (fadd 2000 (fmul (Math_random h k) 1000))
      else if ticker \<in> set (map JStr
                [''META'', ''TSLA'', ''AVGO'', ''LLY'', ''V'', ''JPM'', ''WMT'', ''MA''])
      then toFixed2 (fadd 500 (fmul (Math_random h k) 500))
      else if strict_eq sector (JStr ''Technology'')
      then toFixed2 (fadd 100 (fmul (Math_random h k) 300))
      else if strict_eq sector (JStr ''Healthcare'')
      then toFixed2 (fadd 80 (fmul (Math_random h k) 200))
      else toFixed2 (fadd 50 (fmul (Math_random h k) 150)))"

text \<open>
  Step 1, the callback of \<^verbatim>\<open>rawData.stockData.map\<close>: the item's own properties, then
  eight properties set to strings.
\<close>

definition liveStock :: "host \<Rightarrow> nat \<Rightarrow> obj \<Rightarrow> obj" where
  "liveStock h k item =
     item(''market_cap'' \<mapsto> JStr (if truthy (get item ''market_cap'')
                                   then js_String h (get item ''market_cap'')
                                   else generateMarketCap h k (get item ''ticker'')
                                          (get item ''sector'')),
          ''sma_50'' \<mapsto> JStr (js_String h (get item ''sma_50'')),
          ''sma_200'' \<mapsto> JStr (js_String h (get item ''sma_200'')),
          ''current_price'' \<mapsto> JStr (js_String h (get item ''current_price'')),
          ''daily_change'' \<mapsto> JStr (js_String h (get item ''daily_change'')),
          ''strategy_return'' \<mapsto> JStr (js_String h (get item ''strategy_return'')),
          ''rsi'' \<mapsto> JStr (js_String h (get item ''rsi'')),
          ''volume'' \<mapsto> JStr (js_String h (get item ''volume'')))"

fun liveStocks :: "host \<Rightarrow> nat \<Rightarrow> obj list \<Rightarrow> obj list" where
  "liveStocks h k [] = []"
| "liveStocks h k (item # items) =
     liveStock h k item
       # liveStocks h (if truthy (get item ''market_cap'') then k else k + 1) items"

text \<open>
  Step 2, the callback of \<^verbatim>\<open>snap.stocks.map\<close>: \<^verbatim>\<open>null\<close> (here \<open>None\<close>) when no live
  stock has the ticker, else the live stock's properties, overridden by the partial
  record's, with four properties set from the partial record whether it has them or
  not.
\<close>

definition mergeStock :: "host \<Rightarrow> obj \<Rightarrow> obj \<Rightarrow> obj" where
  "mergeStock h baseStock partialStock =
     (baseStock ++ partialStock)
       (''sma_50'' \<mapsto> JStr (js_String h (get partialStock ''sma_50'')),
        ''sma_200'' \<mapsto> JStr (js_String h (get partialStock ''sma_200'')),
        ''status'' \<mapsto> get partialStock ''status'',
        ''signal'' \<mapsto> get partialStock ''signal'')"

definition findBase :: "obj list \<Rightarrow> obj \<Rightarrow> obj option" where
  "findBase live partialStock =
     find (\<lambda>s. strict_eq (get s ''ticker'') (get partialStock ''ticker'')) live"

definition snapshotStock :: "host \<Rightarrow> obj list \<Rightarrow> obj \<Rightarrow> obj option" where
  "snapshotStock h live partialStock =
     (case findBase live partialStock of
        None \<Rightarrow> None
      | Some baseStock \<Rightarrow> Some (mergeStock h baseStock partialStock))"

text \<open>\<^verbatim>\<open>snap.stocks.map(...).filter(Boolean)\<close>.\<close>

definition snapshotStocks :: "host \<Rightarrow> obj list \<Rightarrow> obj list \<Rightarrow> obj list" where
  "snapshotStocks h live stocks = List.map_filter (snapshotStock h live) stocks"

definition historySnapshot :: "host \<Rightarrow> obj list \<Rightarrow> raw_snapshot \<Rightarrow> js_error + MarketSnapshot" where
  "historySnapshot h live snap =
     (let date = Date_getTime h (snap_timestamp snap);
          lbl = toLocaleTimeString h date
      in case snap_stocks snap of
           None \<Rightarrow> Inl TypeError
         | Some stocks \<Rightarrow>
             Inr \<lparr>label = lbl, timestamp = date, data = snapshotStocks h live stocks\<rparr>)"

text \<open>The outer \<^verbatim>\<open>.map\<close> over the groups: the first exception ends it.\<close>

fun historySnapshots :: "host \<Rightarrow> obj list \<Rightarrow> raw_snapshot list \<Rightarrow> js_error + MarketSnapshot list" where
  "historySnapshots h live [] = Inr []"
| "historySnapshots h live (snap # snaps) =
     (case historySnapshot h live snap of
        Inl e \<Rightarrow> Inl e
      | Inr m \<Rightarrow>
          (case historySnapshots h live snaps of
             Inl e \<Rightarrow> Inl e
           | Inr ms \<Rightarrow> Inr (m # ms)))"

text \<open>
  \<^verbatim>\<open>.sort((a, b) => a.timestamp - b.timestamp)\<close>.  The sort is stable, and a comparator
  result of \<^verbatim>\<open>NaN\<close> is taken as \<open>+0\<close>.  With a consistent comparator the result is the
  one stable sorted arrangement, which insertion from the right computes.  A comparator
  that returns \<^verbatim>\<open>NaN\<close> for some pairs is not consistent, and the standard then leaves
  the order to the implementation: the insertion below is one such order.
\<close>

definition compareFn :: "MarketSnapshot \<Rightarrow> MarketSnapshot \<Rightarrow> int option" where
  "compareFn a b = num_sub (timestamp a) (timestamp b)"

definition not_after :: "int option \<Rightarrow> bool" where
  "not_after v = (case v of None \<Rightarrow> True | Some d \<Rightarrow> d \<le> 0)"

fun insert_sorted :: "('a \<Rightarrow> 'a \<Rightarrow> int option) \<Rightarrow> 'a \<Rightarrow> 'a list \<Rightarrow> 'a list" where
  "insert_sorted cmp x [] = [x]"
| "insert_sorted cmp x (y # ys) =
     (if not_after (cmp x y) then x # y # ys else y # insert_sorted cmp x ys)"

definition js_sort :: "('a \<Rightarrow> 'a \<Rightarrow> int option) \<Rightarrow> 'a list \<Rightarrow> 'a list" where
  "js_sort cmp xs = foldr (insert_sorted cmp) xs []"

definition liveSnapshot :: "int \<Rightarrow> obj list \<Rightarrow> MarketSnapshot" where
  "liveSnapshot now live = \<lparr>label = ''Now (Live)'', timestamp = Some now, data = live\<rparr>"

text \<open>
  The body of the \<^verbatim>\<open>try\<close> block of \<^verbatim>\<open>fetchHistory\<close>; \<open>now\<close> is the value of
  \<^verbatim>\<open>Date.now()\<close>.
\<close>

definition fetchHistory_try :: "host \<Rightarrow> int \<Rightarrow> fetched \<Rightarrow> js_error + MarketSnapshot list" where
  "fetchHistory_try h now f =
     (case f of
        Rejected \<Rightarrow> Inl NetworkError
      | Response ok statusText body \<Rightarrow>
          if \<not> ok then Inl (HttpError statusText)
          else (case body of
                  None \<Rightarrow> Inl SyntaxError
                | Some rawData \<Rightarrow>
                    (case stockData rawData of
                       None \<Rightarrow> Inl TypeError
                     | Some items \<Rightarrow>
                         let live = liveStocks h 0 items
                         in (case historySnapshots h live
                                   (case historicalSnapshots rawData of
                                      None \<Rightarrow> [] | Some snaps \<Rightarrow> snaps) of
                               Inl e \<Rightarrow> Inl e
                             | Inr history \<Rightarrow>
                                 Inr (js_sort compareFn
                                        (history @ [liveSnapshot now live]))))))"

text \<open>
  \<^verbatim>\<open>fetchHistory\<close>: the \<^verbatim>\<open>catch\<close> clause writes the error to \<^verbatim>\<open>console.error\<close> and
  returns the empty array.  The result is the list of errors logged and the array
  returned; the promise is never rejected.
\<close>

definition fetchHistory :: "host \<Rightarrow> int \<Rightarrow> fetched \<Rightarrow> js_error list \<times> MarketSnapshot list" where
  "fetchHistory h now f =
     (case fetchHistory_try h now f of
        Inl e \<Rightarrow> ([e], [])
      | Inr snapshots \<Rightarrow> ([], snapshots))"

text \<open>The historical groups of a fetched document: the argument of the outer \<^verbatim>\<open>.map\<close>.\<close>

definition groups_of :: "fetched \<Rightarrow> raw_snapshot list" where
  "groups_of f =
     (case f of
        Response ok statusText (Some rawData) \<Rightarrow>
          (case historicalSnapshots rawData of None \<Rightarrow> [] | Some snaps \<Rightarrow> snaps)
      | _ \<Rightarrow> [])"

section \<open>The hook: \<^verbatim>\<open>hooks/useMarketData.ts\<close>\<close>

record hook_state =
  history :: "MarketSnapshot list"
  timeIndex :: int
  loading :: bool
  isPlaying :: bool

definition initial_state :: hook_state where
  "initial_state = \<lparr>history = [], timeIndex = 0, loading = True, isPlaying = False\<rparr>"

text \<open>\<^verbatim>\<open>xs[i]\<close> for an integer \<open>i\<close>: \<^verbatim>\<open>undefined\<close> (here \<open>None\<close>) outside the array.\<close>

definition at_index :: "'a list \<Rightarrow> int \<Rightarrow> 'a option" where
  "at_index xs i = (if 0 \<le> i \<and> i < int (length xs) then Some (xs ! nat i) else None)"

text \<open>\<^verbatim>\<open>loadData\<close>, once \<^verbatim>\<open>fetchHistory()\<close> has resolved with \<open>snapshots\<close>.\<close>

definition loadData :: "hook_state \<Rightarrow> MarketSnapshot list \<Rightarrow> hook_state" where
  "loadData s snapshots =
     s\<lparr>history := snapshots, timeIndex := int (length snapshots) - 1, loading := False\<rparr>"

text \<open>
  One firing of the interval, which exists only while \<^verbatim>\<open>isPlaying\<close> is true (the
  effect clears it as soon as the flag changes):
  \<^verbatim>\<open>
  setTimeIndex(prev => {
    if (prev >= history.length - 1) { setIsPlaying(false); return prev; }
    return prev + 1;
  });
  \<close>
\<close>

definition tick :: "hook_state \<Rightarrow> hook_state" where
  "tick s =
     (if \<not> isPlaying s then s
      else if int (length (history s)) - 1 \<le> timeIndex s then s\<lparr>isPlaying := False\<rparr>
      else s\<lparr>timeIndex := timeIndex s + 1\<rparr>)"

definition stocks_of :: "hook_state \<Rightarrow> obj list" where
  "stocks_of s =
     (if length (history s) = 0 then []
      else case at_index (history s) (timeIndex s) of
             None \<Rightarrow> []
           | Some snap \<Rightarrow> data snap)"

definition currentSnapshotLabel :: "hook_state \<Rightarrow> string" where
  "currentSnapshotLabel s =
     (case at_index (history s) (timeIndex s) of
        None \<Rightarrow> ''Loading...''
      | Some snap \<Rightarrow> if label snap = [] then ''Loading...'' else label snap)"

definition isTimeTraveling :: "hook_state \<Rightarrow> bool" where
  "isTimeTraveling s =
     (0 < length (history s) \<and> timeIndex s < int (length (history s)) - 1)"

section \<open>The window: \<^verbatim>\<open>components/TimeTravelFooter.tsx\<close>\<close>








section \<open>Derived metrics: \<^verbatim>\<open>utils/analytics.ts\<close>\<close>


text \<open>
  \<^verbatim>\<open>
  export const calculateSentiment = (stocks: Stock[]) => {
    if (stocks.length === 0) return { bullish: 0, bearish: 0, percent: 0 };
    const bullishCount = stocks.filter(s => s.status === 'BULLISH').length;
    const percent = Math.round((bullishCount / stocks.length) * 100);
    return { bullish: bullishCount, bearish: stocks.length - bullishCount, percent };
  };
  \<close>
\<close>

definition isBullish :: "obj \<Rightarrow> bool" where
  "isBullish s = strict_eq (get s ''status'') (JStr ''BULLISH'')"


section \<open>Example inputs\<close>

text \<open>
  A host for the closed examples below: it prints the integer part of a number, knows
  no date format (the examples give their timestamps as numbers, except for one string
  that is not a date), and its random source is constant.
\<close>

definition example_host :: host where
  "example_host =
     \<lparr>Number_toString = (\<lambda>r. digits (nat \<lfloor>r\<rfloor>)),
      Date_parse = (\<lambda>s. None),
      toLocaleTimeString = (\<lambda>t. case t of None \<Rightarrow> ''Invalid Date'' | Some _ \<Rightarrow> ''12:00''),
      Math_random = (\<lambda>k. 0)\<rparr>"


text \<open>A two-snapshot history with playback running at its first position.\<close>

definition old_snapshot :: MarketSnapshot where
  "old_snapshot = \<lparr>label = ''09:30'', timestamp = Some 1000, data = []\<rparr>"

definition playing_two :: hook_state where
  "playing_two =
     \<lparr>history = [old_snapshot, liveSnapshot 90000000 []], timeIndex = 0, loading = False,
      isPlaying = True\<rparr>"

text \<open>Two baseline records, a partial record for the first and one for an unknown ticker.\<close>

definition stock_A :: obj where
  "stock_A = [''ticker'' \<mapsto> JStr ''AAA'', ''sector'' \<mapsto> JStr ''Energy'',
              ''status'' \<mapsto> JStr ''BULLISH'', ''signal'' \<mapsto> JStr ''NONE'',
              ''current_price'' \<mapsto> JStr ''10'', ''market_cap'' \<mapsto> JStr ''120'']"

definition stock_B :: obj where
  "stock_B = [''ticker'' \<mapsto> JStr ''BBB'', ''sector'' \<mapsto> JStr ''Energy'',
              ''status'' \<mapsto> JStr ''BEARISH'', ''signal'' \<mapsto> JStr ''NONE'',
              ''current_price'' \<mapsto> JStr ''20'', ''market_cap'' \<mapsto> JStr ''80'']"

definition partial_A :: obj where
  "partial_A = [''ticker'' \<mapsto> JStr ''AAA'', ''current_price'' \<mapsto> JStr ''5'']"

definition partial_Z :: obj where
  "partial_Z = [''ticker'' \<mapsto> JStr ''ZZZ'', ''status'' \<mapsto> JStr ''BULLISH'']"

text \<open>A document with one group whose timestamp is a string that is not a date.\<close>

definition unparsed_group :: raw_snapshot where
  "unparsed_group = \<lparr>snap_timestamp = JStr ''not-a-date'', snap_stocks = Some []\<rparr>"

definition unparsed_response :: fetched where
  "unparsed_response =
     Response True ''OK''
       (Some \<lparr>stockData = Some [stock_A], historicalSnapshots = Some [unparsed_group]\<rparr>)"

text \<open>A document with two groups, given out of order, with numeric timestamps.\<close>

definition two_groups_response :: fetched where
  "two_groups_response =
     Response True ''OK''
       (Some \<lparr>stockData = Some [stock_A, stock_B],
              historicalSnapshots = Some
                [\<lparr>snap_timestamp = JNum 5000, snap_stocks = Some [partial_A]\<rparr>,
                 \<lparr>snap_timestamp = JNum 2000, snap_stocks = Some [partial_Z]\<rparr>]\<rparr>)"


section \<open>Properties of the derived metrics\<close>

lemma isBullish_tag [simp]:
  "isBullish [''status'' \<mapsto> JStr ''BULLISH'']"
  "\<not> isBullish [''status'' \<mapsto> JStr ''BEARISH'']"
  by (simp_all add: isBullish_def get_def)


text \<open>
  The quotient and the product are rounded to doubles before \<^verbatim>\<open>Math.round\<close> sees
  them.  For 23 bullish entities out of 40 the product is the double just below
  \<open>57.5\<close>, and the percentage is 57; the exact value \<open>57.5\<close> would round to 58.
\<close>

lemma percent_23_of_40:
  "Math_round (fmul (fdiv 23 40) 100) = 57"
  "Math_round (23 / 40 * 100) = 58"
  by code_simp+


section \<open>Properties of the market data service\<close>



lemma ticker_liveStock: "get (liveStock h k item) ''ticker'' = get item ''ticker''"
  by (simp add: liveStock_def get_def)


text \<open>
  Claim C6.  When the fetch fails (the request is rejected, the response is not \<open>ok\<close>,
  or its body is not JSON), \<open>fetchHistory\<close> returns the empty store, of length 0, and
  the error is written to the log; the caller gets a result, never an exception.
\<close>

theorem fetch_failure_empty_store:
  "fetchHistory h now Rejected = ([NetworkError], [])
   \<and> fetchHistory h now (Response False statusText body) = ([HttpError statusText], [])
   \<and> fetchHistory h now (Response True statusText None) = ([SyntaxError], [])
   \<and> length (snd (fetchHistory h now Rejected)) = 0
   \<and> length (snd (fetchHistory h now (Response False statusText body))) = 0
   \<and> length (snd (fetchHistory h now (Response True statusText None))) = 0"
  by (simp add: fetchHistory_def fetchHistory_try_def)




section \<open>Properties of the hook\<close>

text \<open>
  Claim C10.  When \<open>fetchHistory\<close> yields the empty store, the position is set to
  \<open>length - 1 = -1\<close>, the read at that position is \<^verbatim>\<open>undefined\<close> rather than an access
  out of range, the current entity list is empty, the label is \<open>Loading...\<close> and
  \<open>isTimeTraveling\<close> is false.
\<close>

theorem empty_store_reads:
  assumes "snd (fetchHistory h now f) = []"
  shows "timeIndex (loadData initial_state (snd (fetchHistory h now f))) = - 1
    \<and> at_index (history (loadData initial_state (snd (fetchHistory h now f)))) (- 1) = None
    \<and> stocks_of (loadData initial_state (snd (fetchHistory h now f))) = []
    \<and> currentSnapshotLabel (loadData initial_state (snd (fetchHistory h now f))) = ''Loading...''
    \<and> \<not> isTimeTraveling (loadData initial_state (snd (fetchHistory h now f)))"
  using assms
  by (simp add: loadData_def stocks_of_def currentSnapshotLabel_def isTimeTraveling_def
      at_index_def)

theorem empty_store_reads_witness:
  "snd (fetchHistory example_host 1000 Rejected) = []
   \<and> timeIndex (loadData initial_state (snd (fetchHistory example_host 1000 Rejected))) = - 1
   \<and> stocks_of (loadData initial_state (snd (fetchHistory example_host 1000 Rejected))) = []
   \<and> currentSnapshotLabel (loadData initial_state (snd (fetchHistory example_host 1000 Rejected)))
       = ''Loading...''
   \<and> \<not> isTimeTraveling (loadData initial_state (snd (fetchHistory example_host 1000 Rejected)))"
proof -
  have empty: "snd (fetchHistory example_host 1000 Rejected) = []"
    by (simp add: fetchHistory_def fetchHistory_try_def)
  show ?thesis
    using empty empty_store_reads [OF empty] by simp
qed

section \<open>Playback\<close>

text \<open>
  Claim C2, as stated, fails: started at position \<open>length - 2\<close> of a two-element
  history, the first tick moves the position to \<open>length - 1\<close> and leaves playback
  running; the controller is not halted after that tick.
\<close>

theorem one_tick_still_playing:
  "timeIndex playing_two = int (length (history playing_two)) - 2
   \<and> timeIndex (tick playing_two) = int (length (history playing_two)) - 1
   \<and> isPlaying (tick playing_two)"
  by (simp add: playing_two_def tick_def)

text \<open>
  Claim C2, amended.  While playback is active, a tick at a position below
  \<open>length - 1\<close> advances the position by exactly 1 and playback stays active; a tick
  at position \<open>length - 1\<close> or beyond leaves the position unchanged and stops playback.
  Started at position \<open>length - 2\<close> of a two-element history, the first tick reaches
  \<open>length - 1\<close>, the second one leaves the position there and halts playback, and
  later ticks change nothing.
\<close>

theorem tick_playback:
  "(isPlaying s \<and> timeIndex s < int (length (history s)) - 1
      \<longrightarrow> tick s = s\<lparr>timeIndex := timeIndex s + 1\<rparr>)
   \<and> (isPlaying s \<and> int (length (history s)) - 1 \<le> timeIndex s
      \<longrightarrow> tick s = s\<lparr>isPlaying := False\<rparr>)
   \<and> (isPlaying s \<and> length (history s) = 2 \<and> timeIndex s = 0
      \<longrightarrow> tick s = s\<lparr>timeIndex := 1\<rparr>
        \<and> tick (tick s) = s\<lparr>timeIndex := 1, isPlaying := False\<rparr>
        \<and> tick (tick (tick s)) = tick (tick s))"
  by (simp add: tick_def)

theorem tick_playback_witness:
  "isPlaying playing_two \<and> length (history playing_two) = 2 \<and> timeIndex playing_two = 0
   \<and> tick playing_two = playing_two\<lparr>timeIndex := 1\<rparr>
   \<and> int (length (history (tick playing_two))) - 1 \<le> timeIndex (tick playing_two)
   \<and> tick (tick playing_two) = playing_two\<lparr>timeIndex := 1, isPlaying := False\<rparr>
   \<and> tick (tick (tick playing_two)) = tick (tick playing_two)"
proof -
  have start: "isPlaying playing_two \<and> length (history playing_two) = 2 \<and> timeIndex playing_two = 0"
    by (simp add: playing_two_def)
  have scenario: "tick playing_two = playing_two\<lparr>timeIndex := 1\<rparr>
      \<and> tick (tick playing_two) = playing_two\<lparr>timeIndex := 1, isPlaying := False\<rparr>
      \<and> tick (tick (tick playing_two)) = tick (tick playing_two)"
    using start tick_playback [of playing_two] by blast
  have at_end: "int (length (history (tick playing_two))) - 1 \<le> timeIndex (tick playing_two)"
    by (simp add: playing_two_def tick_def)
  show ?thesis
    using start scenario at_end by blast
qed

section \<open>Unmatched historical records\<close>

lemma snapshotStocks_Nil [simp]: "snapshotStocks h live [] = []"
  by (simp add: snapshotStocks_def List.map_filter_def)

lemma snapshotStocks_Cons:
  "snapshotStocks h live (p # qs) =
     (case snapshotStock h live p of None \<Rightarrow> snapshotStocks h live qs
      | Some e \<Rightarrow> e # snapshotStocks h live qs)"
  by (simp add: snapshotStocks_def List.map_filter_def split: option.splits)

lemma snapshotStocks_append:
  "snapshotStocks h live (ps @ qs) = snapshotStocks h live ps @ snapshotStocks h live qs"
  by (simp add: snapshotStocks_def List.map_filter_def)

lemma historySnapshot_stocks_cong:
  assumes "snapshotStocks h live ps = snapshotStocks h live qs"
  shows "historySnapshot h live (snap\<lparr>snap_stocks := Some ps\<rparr>)
       = historySnapshot h live (snap\<lparr>snap_stocks := Some qs\<rparr>)"
  using assms by (simp add: historySnapshot_def)

lemma historySnapshots_cong:
  assumes "historySnapshot h live a = historySnapshot h live b"
  shows "historySnapshots h live (pre @ a # post) = historySnapshots h live (pre @ b # post)"
  using assms by (induction pre) (simp_all split: sum.splits)

lemma example_ticker_reads:
  "get stock_A ''ticker'' = JStr ''AAA''"
  "get stock_B ''ticker'' = JStr ''BBB''"
  "get partial_A ''ticker'' = JStr ''AAA''"
  "get partial_Z ''ticker'' = JStr ''ZZZ''"
  by (simp_all add: stock_A_def stock_B_def partial_A_def partial_Z_def get_def)

text \<open>
  Claim C7.  A partial record whose ticker is that of no baseline entity yields no
  entity, and the snapshot built from a group is the one built from the group without
  that record: the merged entities of the other records, and the whole store, are the
  same as if the record were absent from the input.
\<close>

theorem unmatched_record_discarded:
  assumes "\<forall>b \<in> set (liveStocks h 0 items). \<not> strict_eq (get b ''ticker'') (get p ''ticker'')"
  shows "snapshotStock h (liveStocks h 0 items) p = None
    \<and> snapshotStocks h (liveStocks h 0 items) (ps @ p # qs)
        = snapshotStocks h (liveStocks h 0 items) (ps @ qs)
    \<and> fetchHistory h now (Response True statusText (Some
          \<lparr>stockData = Some items,
           historicalSnapshots = Some (pre @ snap\<lparr>snap_stocks := Some (ps @ p # qs)\<rparr> # post)\<rparr>))
      = fetchHistory h now (Response True statusText (Some
          \<lparr>stockData = Some items,
           historicalSnapshots = Some (pre @ snap\<lparr>snap_stocks := Some (ps @ qs)\<rparr> # post)\<rparr>))"
proof -
  let ?live = "liveStocks h 0 items"
  have "findBase ?live p = None"
    using assms by (simp add: findBase_def find_None_iff)
  then have none: "snapshotStock h ?live p = None"
    by (simp add: snapshotStock_def)
  have stocks: "snapshotStocks h ?live (ps @ p # qs) = snapshotStocks h ?live (ps @ qs)"
    by (simp add: snapshotStocks_append snapshotStocks_Cons none)
  have groups: "historySnapshots h ?live (pre @ snap\<lparr>snap_stocks := Some (ps @ p # qs)\<rparr> # post)
      = historySnapshots h ?live (pre @ snap\<lparr>snap_stocks := Some (ps @ qs)\<rparr> # post)"
    by (rule historySnapshots_cong, rule historySnapshot_stocks_cong, rule stocks)
  show ?thesis
    using none stocks groups by (simp add: fetchHistory_def fetchHistory_try_def)
qed

theorem unmatched_record_discarded_witness:
  "findBase (liveStocks example_host 0 [stock_A, stock_B]) partial_Z = None
   \<and> snapshotStocks example_host (liveStocks example_host 0 [stock_A, stock_B])
        ([partial_A] @ partial_Z # [])
       = snapshotStocks example_host (liveStocks example_host 0 [stock_A, stock_B])
           ([partial_A] @ [])
   \<and> length (snapshotStocks example_host (liveStocks example_host 0 [stock_A, stock_B])
        ([partial_A] @ partial_Z # [])) = 1"
proof -
  let ?live = "liveStocks example_host 0 [stock_A, stock_B]"
  have unmatched: "\<forall>b \<in> set ?live. \<not> strict_eq (get b ''ticker'') (get partial_Z ''ticker'')"
    by (simp add: ticker_liveStock example_ticker_reads)
  have none: "findBase ?live partial_Z = None"
    using unmatched by (simp add: findBase_def find_None_iff)
  have matched: "findBase ?live partial_A = Some (liveStock example_host 0 stock_A)"
    by (simp add: findBase_def ticker_liveStock example_ticker_reads)
  have one: "length (snapshotStocks example_host ?live ([partial_A] @ [])) = 1"
    by (simp add: snapshotStocks_Cons snapshotStock_def matched del: liveStocks.simps)
  show ?thesis
    using none one
      unmatched_record_discarded [OF unmatched, of "[partial_A]" "[]"]
    by simp
qed

section \<open>The order of the store\<close>

lemma set_insert_sorted: "set (insert_sorted cmp x ys) = insert x (set ys)"
  by (induction ys) auto

lemma set_js_sort: "set (js_sort cmp xs) = set xs"
  by (induction xs) (simp_all add: js_sort_def set_insert_sorted)

lemma length_insert_sorted: "length (insert_sorted cmp x ys) = Suc (length ys)"
  by (induction ys) simp_all

lemma length_js_sort: "length (js_sort cmp xs) = length xs"
  by (induction xs) (simp_all add: js_sort_def length_insert_sorted)

lemma js_sort_Cons: "js_sort cmp (x # xs) = insert_sorted cmp x (js_sort cmp xs)"
  by (simp add: js_sort_def)

lemma not_after_compareFn:
  assumes "timestamp a = Some x" and "timestamp b = Some y"
  shows "not_after (compareFn a b) \<longleftrightarrow> x \<le> y"
  using assms by (simp add: not_after_def compareFn_def num_sub_def)

lemma insert_sorted_insort_key:
  assumes "\<forall>y \<in> set (x # ys). timestamp y \<noteq> None"
  shows "insert_sorted compareFn x ys = insort_key (\<lambda>s. the (timestamp s)) x ys"
  using assms
proof (induction ys)
  case Nil
  then show ?case by simp
next
  case (Cons y ys)
  then obtain a b where "timestamp x = Some a" and "timestamp y = Some b"
    by auto
  with Cons show ?case
    by (simp add: not_after_compareFn)
qed

lemma js_sort_sort_key:
  assumes "\<forall>y \<in> set xs. timestamp y \<noteq> None"
  shows "js_sort compareFn xs = sort_key (\<lambda>s. the (timestamp s)) xs"
  using assms
proof (induction xs)
  case Nil
  then show ?case by (simp add: js_sort_def)
next
  case (Cons x xs)
  then have rest: "js_sort compareFn xs = sort_key (\<lambda>s. the (timestamp s)) xs"
    by simp
  have "\<forall>y \<in> set (x # js_sort compareFn xs). timestamp y \<noteq> None"
    using Cons.prems by (simp add: set_js_sort)
  then have "insert_sorted compareFn x (js_sort compareFn xs)
      = insort_key (\<lambda>s. the (timestamp s)) x (js_sort compareFn xs)"
    by (rule insert_sorted_insort_key)
  then show ?case
    by (simp add: js_sort_Cons rest sort_key_def)
qed

lemma js_sort_ascending:
  assumes "\<forall>y \<in> set xs. timestamp y \<noteq> None" and "i + 1 < length (js_sort compareFn xs)"
  shows "num_le (timestamp (js_sort compareFn xs ! i)) (timestamp (js_sort compareFn xs ! (i + 1)))"
proof -
  let ?key = "\<lambda>s. the (timestamp s)"
  let ?ys = "js_sort compareFn xs"
  have eq: "?ys = sort_key ?key xs"
    using assms(1) by (rule js_sort_sort_key)
  have "sorted (map ?key ?ys)"
    by (simp add: eq)
  moreover have "i < length (map ?key ?ys)" and "i + 1 < length (map ?key ?ys)"
    using assms(2) by simp_all
  ultimately have le: "?key (?ys ! i) \<le> ?key (?ys ! (i + 1))"
    using assms(2) by (simp add: sorted_iff_nth_Suc)
  have "?ys ! i \<in> set xs" and "?ys ! (i + 1) \<in> set xs"
    using assms(2) set_js_sort [of compareFn xs] nth_mem [of i ?ys] nth_mem [of "i + 1" ?ys]
    by auto
  then have "timestamp (?ys ! i) \<noteq> None" and "timestamp (?ys ! (i + 1)) \<noteq> None"
    using assms(1) by blast+
  then obtain a b where "timestamp (?ys ! i) = Some a" and "timestamp (?ys ! (i + 1)) = Some b"
    by blast
  with le show ?thesis
    by (simp add: num_le_def)
qed

lemma historySnapshots_Inr:
  assumes "historySnapshots h live snaps = Inr hist"
  shows "hist = map (\<lambda>snap. \<lparr>label = toLocaleTimeString h (Date_getTime h (snap_timestamp snap)),
                              timestamp = Date_getTime h (snap_timestamp snap),
                              data = snapshotStocks h live (the (snap_stocks snap))\<rparr>) snaps"
  using assms
proof (induction snaps arbitrary: hist)
  case Nil
  then show ?case by simp
next
  case (Cons snap snaps)
  then show ?case
    by (auto simp: historySnapshot_def Let_def split: sum.splits option.splits)
qed

lemma example_market_caps:
  "truthy (get stock_A ''market_cap'')" "truthy (get stock_B ''market_cap'')"
  by (simp_all add: stock_A_def stock_B_def get_def)

text \<open>
  Claim C1, as stated, fails: a group whose timestamp string does not parse is kept,
  with the timestamp \<^verbatim>\<open>NaN\<close>, and \<^verbatim>\<open>NaN <= t\<close> is false for every \<open>t\<close>.  The store
  built from \<open>unparsed_response\<close> has two snapshots, and the first is not at or before
  the second.
\<close>

theorem unparsed_timestamp_breaks_order:
  "length (snd (fetchHistory example_host 90000000 unparsed_response)) = 2
   \<and> timestamp (snd (fetchHistory example_host 90000000 unparsed_response) ! 0) = None
   \<and> \<not> num_le (timestamp (snd (fetchHistory example_host 90000000 unparsed_response) ! 0))
              (timestamp (snd (fetchHistory example_host 90000000 unparsed_response) ! 1))"
  by (simp add: fetchHistory_def fetchHistory_try_def unparsed_response_def unparsed_group_def
      historySnapshot_def js_sort_def compareFn_def num_sub_def not_after_def num_le_def
      liveSnapshot_def example_host_def)

text \<open>
  The failure does not depend on where the sort puts the snapshot: no arrangement of
  two or more snapshots, one of them with the timestamp \<^verbatim>\<open>NaN\<close>, is in order.
\<close>

lemma nan_never_ordered:
  assumes "None \<in> set (map timestamp store)" and "2 \<le> length store"
  shows "\<exists>i. i + 1 < length store
           \<and> \<not> num_le (timestamp (store ! i)) (timestamp (store ! (i + 1)))"
proof -
  from assms(1) obtain j where j: "j < length store" "timestamp (store ! j) = None"
    by (auto simp: in_set_conv_nth)
  show ?thesis
  proof (cases "j + 1 < length store")
    case True
    with j show ?thesis
      by (intro exI [of _ j]) (simp add: num_le_def)
  next
    case False
    with j assms(2) have "(j - 1) + 1 < length store" and "(j - 1) + 1 = j"
      by simp_all
    with j show ?thesis
      by (intro exI [of _ "j - 1"]) (simp add: num_le_def split: option.splits)
  qed
qed

text \<open>
  Claim C1, amended.  For every store returned by \<open>fetchHistory\<close> from a document in
  which every historical group's timestamp gives a time value (the date is valid),
  the timestamp of each snapshot is at most that of the next one.
\<close>

theorem store_sorted_when_timestamps_parse:
  assumes "\<forall>snap \<in> set (groups_of f). Date_getTime h (snap_timestamp snap) \<noteq> None"
  shows "\<forall>i. i + 1 < length (snd (fetchHistory h now f))
           \<longrightarrow> num_le (timestamp (snd (fetchHistory h now f) ! i))
                      (timestamp (snd (fetchHistory h now f) ! (i + 1)))"
proof (cases "fetchHistory_try h now f")
  case (Inl e)
  then show ?thesis by (simp add: fetchHistory_def)
next
  case (Inr store)
  then obtain ok statusText rawData items hist where
    f: "f = Response ok statusText (Some rawData)"
    and items: "stockData rawData = Some items"
    and hist: "historySnapshots h (liveStocks h 0 items) (groups_of f) = Inr hist"
    and store: "store = js_sort compareFn (hist @ [liveSnapshot now (liveStocks h 0 items)])"
    by (auto simp: fetchHistory_try_def groups_of_def Let_def
        split: fetched.splits if_splits option.splits sum.splits)
  have "\<forall>m \<in> set hist. timestamp m \<noteq> None"
    using assms historySnapshots_Inr [OF hist] by auto
  then have "\<forall>m \<in> set (hist @ [liveSnapshot now (liveStocks h 0 items)]). timestamp m \<noteq> None"
    by (simp add: liveSnapshot_def)
  then have ascending: "\<And>i. i + 1 < length store
      \<Longrightarrow> num_le (timestamp (store ! i)) (timestamp (store ! (i + 1)))"
    unfolding store by (rule js_sort_ascending)
  have "snd (fetchHistory h now f) = store"
    using Inr by (simp add: fetchHistory_def)
  then show ?thesis
    using ascending by simp
qed

lemma two_groups_store:
  "map timestamp (snd (fetchHistory example_host 90000000 two_groups_response))
     = [Some 2000, Some 5000, Some 90000000]"
  by (simp add: fetchHistory_def fetchHistory_try_def two_groups_response_def
      historySnapshot_def js_sort_def compareFn_def num_sub_def not_after_def
      liveSnapshot_def TimeClip_def Let_def example_market_caps)

theorem store_sorted_when_timestamps_parse_witness:
  "map (\<lambda>snap. Date_getTime example_host (snap_timestamp snap)) (groups_of two_groups_response)
     = [Some 5000, Some 2000]
   \<and> length (snd (fetchHistory example_host 90000000 two_groups_response)) = 3
   \<and> num_le (timestamp (snd (fetchHistory example_host 90000000 two_groups_response) ! 0))
            (timestamp (snd (fetchHistory example_host 90000000 two_groups_response) ! 1))
   \<and> num_le (timestamp (snd (fetchHistory example_host 90000000 two_groups_response) ! 1))
            (timestamp (snd (fetchHistory example_host 90000000 two_groups_response) ! 2))"
proof -
  let ?store = "snd (fetchHistory example_host 90000000 two_groups_response)"
  have parsed: "map (\<lambda>snap. Date_getTime example_host (snap_timestamp snap))
      (groups_of two_groups_response) = [Some 5000, Some 2000]"
    by (simp add: groups_of_def two_groups_response_def TimeClip_def)
  have hyp: "\<forall>snap \<in> set (groups_of two_groups_response).
      Date_getTime example_host (snap_timestamp snap) \<noteq> None"
    by (simp add: groups_of_def two_groups_response_def TimeClip_def)
  have len: "length ?store = 3"
    using arg_cong [OF two_groups_store, of length] by simp
  have sorted: "\<forall>i. i + 1 < length ?store
      \<longrightarrow> num_le (timestamp (?store ! i)) (timestamp (?store ! (i + 1)))"
    by (rule store_sorted_when_timestamps_parse [OF hyp])
  have first: "num_le (timestamp (?store ! 0)) (timestamp (?store ! 1))"
    using sorted [rule_format, of 0] len by simp
  have second: "num_le (timestamp (?store ! 1)) (timestamp (?store ! 2))"
    using sorted [rule_format, of 1] len by (simp add: numeral_2_eq_2)
  show ?thesis
    using parsed len first second by blast
qed

section \<open>The entities of a snapshot\<close>












section \<open>The 24-hour window\<close>
















end
